theory Spec2Isabelle
  imports Main
begin

section \<open>Text: characters, trimming and JavaScript objects\<close>

text \<open>
  A JavaScript string is modelled as a \<^typ>\<open>string\<close>: the list of its code units, for
  code units below 256. On these texts \<open>encodeURIComponent\<close> and \<open>btoa\<close> never throw.

  \<open>\s\<close> of a regular expression and \<open>String.prototype.trim\<close> use the same class of
  characters (white space and line terminators); below 256 these are tab, line feed,
  vertical tab, form feed, carriage return, space and the no-break space.
  \<open>\w\<close> is \<open>[A-Za-z0-9_]\<close>.
\<close>

definition isSpace :: "char \<Rightarrow> bool" where
  "isSpace c = (let n = (of_char c :: nat) in (9 \<le> n \<and> n \<le> 13) \<or> n = 32 \<or> n = 160)"

definition isWordChar :: "char \<Rightarrow> bool" where
  "isWordChar c =
     (let n = (of_char c :: nat)
      in (48 \<le> n \<and> n \<le> 57) \<or> (65 \<le> n \<and> n \<le> 90) \<or> (97 \<le> n \<and> n \<le> 122) \<or> n = 95)"

text \<open>The class \<open>[\w.-]\<close> of the placeholder pattern.\<close>

definition isNameChar :: "char \<Rightarrow> bool" where
  "isNameChar c = (isWordChar c \<or> c = CHR ''.'' \<or> c = CHR ''-'')"

definition trim :: "string \<Rightarrow> string" where
  "trim s = rev (dropWhile isSpace (rev (dropWhile isSpace s)))"

text \<open>
  \<open>Record<string, string>\<close> values are plain objects created by the literal \<open>{}\<close>:
  a map of own properties, with \<open>Object.prototype\<close> behind it. Reading \<open>obj[key]\<close>
  finds an own property first and an inherited one otherwise. The inherited members
  are functions, apart from the accessor \<open>__proto__\<close>, which reads as the prototype
  object itself. \<open>prototypeText\<close> gives the text such a member converts to (V8, the
  engine of the Electron shell), \<open>None\<close> for a name that \<open>Object.prototype\<close> lacks.
\<close>

type_synonym js_object = "string \<rightharpoonup> string"

definition prototypeText :: "string \<Rightarrow> string option" where
  "prototypeText name =
     (if name = ''__proto__'' then Some ''[object Object]''
      else if name = ''constructor'' then Some ''function Object() { [native code] }''
      else if name \<in> set [''__defineGetter__'', ''__defineSetter__'', ''hasOwnProperty'',
                           ''__lookupGetter__'', ''__lookupSetter__'', ''isPrototypeOf'',
                           ''propertyIsEnumerable'', ''toString'', ''valueOf'',
                           ''toLocaleString'']
      then Some (''function '' @ name @ ''() { [native code] }'')
      else None)"

text \<open>
  The assignment \<open>obj[key] = value\<close> of a string: it creates or overwrites an own
  property, except for the key \<open>__proto__\<close>, whose inherited setter ignores a value
  that is not an object.
\<close>

definition setProperty :: "js_object \<Rightarrow> string \<Rightarrow> string \<Rightarrow> js_object" where
  "setProperty obj k v = (if k = ''__proto__'' then obj else obj(k \<mapsto> v))"

section \<open>Variable substitution (utils: applyVariables)\<close>

text \<open>
  The replacer \<open>(_, key) => vars[key] ?? ""\<close>, with the conversion to text that
  \<open>replace\<close> applies to its result. Only \<open>undefined\<close> and \<open>null\<close> fall through \<open>??\<close>.
\<close>

definition replacer :: "js_object \<Rightarrow> string \<Rightarrow> string" where
  "replacer vars k =
     (case vars k of
        Some v \<Rightarrow> v
      | None \<Rightarrow> (case prototypeText k of Some t \<Rightarrow> t | None \<Rightarrow> []))"

text \<open>
  One attempt of the pattern \<open>{{\s*([\w.-]+)\s*}}\<close> at the start of a text: the captured
  name and the text after the match. The classes \<open>\s\<close>, \<open>[\w.-]\<close> and the brace are
  pairwise disjoint, so each greedy quantifier takes the whole run and backtracking
  cannot find a match that this left-to-right reading misses.
\<close>

definition matchPlaceholder :: "string \<Rightarrow> (string \<times> string) option" where
  "matchPlaceholder s =
     (case s of
        a # b # r0 \<Rightarrow>
          if a = CHR ''{'' \<and> b = CHR ''{'' then
            (let r1 = dropWhile isSpace r0;
                 name = takeWhile isNameChar r1;
                 r2 = dropWhile isSpace (dropWhile isNameChar r1)
             in if name = [] then None
                else (case r2 of
                        c # d # r3 \<Rightarrow>
                          if c = CHR ''}'' \<and> d = CHR ''}'' then Some (name, r3) else None
                      | _ \<Rightarrow> None))
          else None
      | _ \<Rightarrow> None)"

text \<open>
  \<open>input.replace(/.../g, replacer)\<close>: scan from the left; where the pattern matches,
  emit the replacement and go on after the match (the replacement is not scanned
  again); elsewhere copy one character.
\<close>

function applyVariables :: "string \<Rightarrow> js_object \<Rightarrow> string" where
  "applyVariables [] vars = []"
| "applyVariables (c # cs) vars =
     (case matchPlaceholder (c # cs) of
        Some (k, rest) \<Rightarrow> replacer vars k @ applyVariables rest vars
      | None \<Rightarrow> c # applyVariables cs vars)"
  by pat_completeness auto
termination
proof (relation "measure (\<lambda>(s, vars). length s)")
  show "wf (measure (\<lambda>(s, vars). length s))" by simp
next
  fix c :: char and cs :: string and vars :: js_object and x2 k rest
  assume "matchPlaceholder (c # cs) = Some x2" and "(k, rest) = x2"
  then have m: "matchPlaceholder (c # cs) = Some (k, rest)" by simp
  then obtain b r0 where s: "cs = b # r0"
    by (cases cs) (auto simp: matchPlaceholder_def)
  define r2 where "r2 = dropWhile isSpace (dropWhile isNameChar (dropWhile isSpace r0))"
  from m s obtain e d where r2: "r2 = e # d # rest"
    by (auto simp: matchPlaceholder_def Let_def r2_def split: if_splits list.splits)
  have "length r2 \<le> length r0"
    unfolding r2_def by (meson length_dropWhile_le order_trans)
  with r2 s show "((rest, vars), c # cs, vars) \<in> measure (\<lambda>(s, vars). length s)"
    by simp
next
  fix c :: char and cs :: string and vars :: js_object
  show "((cs, vars), c # cs, vars) \<in> measure (\<lambda>(s, vars). length s)" by simp
qed

section \<open>URL and header building (utils: buildUrl, buildHeaders)\<close>

text \<open>
  \<open>encodeURIComponent\<close>: the unreserved characters (letters, digits and
  \<open>- _ . ! ~ * ' ( )\<close>) stay; every other character is written as the bytes of its
  UTF-8 encoding, each as a percent sign and two upper-case hexadecimal digits. A code
  unit from 128 to 255 has two bytes.
\<close>

definition hexDigit :: "nat \<Rightarrow> char" where
  "hexDigit n = ''0123456789ABCDEF'' ! (n mod 16)"

definition percentByte :: "nat \<Rightarrow> string" where
  "percentByte b = [CHR ''%'', hexDigit (b div 16), hexDigit (b mod 16)]"

definition isUnreserved :: "char \<Rightarrow> bool" where
  "isUnreserved c = (isWordChar c \<or> c \<in> set ''-.!~*()'' \<or> c = CHR 0x27)"

definition encodeChar :: "char \<Rightarrow> string" where
  "encodeChar c =
     (let n = (of_char c :: nat)
      in if isUnreserved c then [c]
         else if n < 128 then percentByte n
         else percentByte (192 + n div 64) @ percentByte (128 + n mod 64))"

definition encodeURIComponent :: "string \<Rightarrow> string" where
  "encodeURIComponent s = concat (map encodeChar s)"

text \<open>\<open>Array.prototype.join\<close>, \<open>String.prototype.indexOf\<close> (\<open>-1\<close> when absent).\<close>

fun join :: "string \<Rightarrow> string list \<Rightarrow> string" where
  "join sep [] = []"
| "join sep [x] = x"
| "join sep (x # y # ys) = x @ sep @ join sep (y # ys)"

fun indexOf :: "string \<Rightarrow> char \<Rightarrow> int" where
  "indexOf [] c = - 1"
| "indexOf (x # xs) c =
     (if x = c then 0 else (let i = indexOf xs c in if i < 0 then - 1 else i + 1))"

record key_value =
  kv_id :: string
  kv_key :: string
  kv_value :: string
  kv_enabled :: bool
  kv_secret :: "bool option"

datatype add_to = Header | Query

datatype auth_config =
  NoAuth
  | Basic string string
  | Bearer string
  | ApiKey string string add_to

text \<open>The filter shared by parameters, headers and form fields.\<close>

definition selected :: "key_value \<Rightarrow> bool" where
  "selected item = (kv_enabled item \<and> length (trim (kv_key item)) > 0)"

definition buildUrl :: "string \<Rightarrow> key_value list \<Rightarrow> js_object \<Rightarrow> string" where
  "buildUrl url params vars =
     (let baseUrl = applyVariables url vars;
          queryPairs =
            map (\<lambda>item. (applyVariables (trim (kv_key item)) vars,
                          applyVariables (kv_value item) vars))
              (filter selected params)
      in if length queryPairs = 0 then baseUrl
         else
           (let query =
                  join ''&''
                    (map (\<lambda>(k, v). encodeURIComponent k @ ''='' @ encodeURIComponent v)
                       queryPairs);
                hashIndex = indexOf baseUrl (CHR ''#'');
                withoutHash = (if hashIndex \<ge> 0 then take (nat hashIndex) baseUrl else baseUrl);
                hash = (if hashIndex \<ge> 0 then drop (nat hashIndex) baseUrl else []);
                separator = (if CHR ''?'' \<in> set withoutHash then ''&'' else ''?'')
            in withoutHash @ separator @ query @ hash))"

text \<open>\<open>btoa\<close>: Base64 of the text read as bytes, three bytes to four digits.\<close>

definition base64Digit :: "nat \<Rightarrow> char" where
  "base64Digit n =
     ''ABCDEFGHIJKLMNOPQRSTUVWXYZabcdefghijklmnopqrstuvwxyz0123456789+/'' ! (n mod 64)"

fun btoa :: "string \<Rightarrow> string" where
  "btoa [] = []"
| "btoa [a] =
     (let x = (of_char a :: nat)
      in [base64Digit (x div 4), base64Digit ((x mod 4) * 16), CHR ''='', CHR ''=''])"
| "btoa [a, b] =
     (let x = (of_char a :: nat); y = (of_char b :: nat)
      in [base64Digit (x div 4), base64Digit ((x mod 4) * 16 + y div 16),
          base64Digit ((y mod 16) * 4), CHR ''=''])"
| "btoa (a # b # c # rest) =
     (let x = (of_char a :: nat); y = (of_char b :: nat); z = (of_char c :: nat)
      in [base64Digit (x div 4), base64Digit ((x mod 4) * 16 + y div 16),
          base64Digit ((y mod 16) * 4 + z div 64), base64Digit (z mod 64)] @ btoa rest)"

text \<open>
  \<open>buildHeaders\<close>: the selected headers are written in list order into a fresh object,
  then the three \<open>if\<close> statements on the authentication follow, in the source's order.
\<close>

definition buildHeaders :: "key_value list \<Rightarrow> auth_config \<Rightarrow> js_object \<Rightarrow> js_object" where
  "buildHeaders headers auth vars =
     (let resolved0 =
            foldl (\<lambda>resolved item.
                     setProperty resolved (applyVariables (trim (kv_key item)) vars)
                       (applyVariables (kv_value item) vars))
              Map.empty (filter selected headers);
          resolved1 =
            (case auth of
               Basic username password \<Rightarrow>
                 setProperty resolved0 ''Authorization''
                   (''Basic '' @ btoa (username @ '':'' @ password))
             | _ \<Rightarrow> resolved0);
          resolved2 =
            (case auth of
               Bearer token \<Rightarrow> setProperty resolved1 ''Authorization'' (''Bearer '' @ token)
             | _ \<Rightarrow> resolved1);
          resolved3 =
            (case auth of
               ApiKey k v Header \<Rightarrow> setProperty resolved2 k v
             | _ \<Rightarrow> resolved2)
      in resolved3)"

text \<open>
  \<open>isValidHttpUrl\<close>. The URL parser of the platform is a parameter: \<open>protocolOf s\<close> is the
  \<open>protocol\<close> of \<open>new URL(s)\<close>, \<open>None\<close> where the constructor throws.
\<close>

definition isValidHttpUrl :: "(string \<Rightarrow> string option) \<Rightarrow> string \<Rightarrow> bool" where
  "isValidHttpUrl protocolOf s =
     (let trimmed = trim s
      in if trimmed = [] then False
         else (case protocolOf trimmed of
                 None \<Rightarrow> False
               | Some protocol \<Rightarrow> protocol = ''http:'' \<or> protocol = ''https:''))"

section \<open>The renderer: variable map, body selection and handleSend (App)\<close>

datatype body_type = Json | Text | FormData

record request_draft =
  rq_id :: string
  rq_name :: string
  rq_method :: string
  rq_url :: string
  rq_params :: "key_value list"
  rq_headers :: "key_value list"
  rq_bodyType :: body_type
  rq_body :: string
  rq_formDataFields :: "key_value list option"
  rq_auth :: auth_config
  rq_documentation :: "string option"

record env_variable =
  ev_id :: string
  ev_key :: string
  ev_initialValue :: string
  ev_currentValue :: string
  ev_sensitive :: bool

record response_state =
  rs_status :: int
  rs_statusText :: string
  rs_headers :: js_object
  rs_body :: string
  rs_duration :: int
  rs_size :: int

record history_item =
  hi_id :: string
  hi_name :: string
  hi_method :: string
  hi_url :: string
  hi_status :: int
  hi_duration :: int
  hi_size :: int
  hi_at :: int

record request_payload =
  p_url :: string
  p_method :: string
  p_headers :: js_object
  p_body :: "string option"

text \<open>
  A thrown value: an \<open>Error\<close> with its message, or anything else. A call across the
  bridge (\<open>window.api.request\<close>) resolves with a response or rejects with a thrown value.
\<close>

datatype thrown = ErrorObject string | OtherValue

datatype transport_outcome = Resolved response_state | Rejected thrown

text \<open>
  What \<open>handleSend\<close> takes from its surroundings: whether \<open>window.api?.request\<close> is
  there, the URL parser, the bridge call, and the values \<open>crypto.randomUUID()\<close> and
  \<open>Date.now()\<close> return when the history item is built.
\<close>

record renderer_host =
  api_available :: bool
  url_protocol :: "string \<Rightarrow> string option"
  api_request :: "request_payload \<Rightarrow> transport_outcome"
  random_uuid :: string
  date_now :: int

text \<open>The component state that \<open>handleSend\<close> reads and sets.\<close>

record app_state =
  response :: "response_state option"
  sending :: bool
  history :: "history_item list"

definition variableMap :: "env_variable list \<Rightarrow> js_object" where
  "variableMap variables =
     foldl (\<lambda>m item. setProperty m (trim (ev_key item)) (ev_currentValue item))
       Map.empty (filter (\<lambda>item. length (trim (ev_key item)) > 0) variables)"

text \<open>
  The body block of \<open>handleSend\<close>: from the draft and the merged headers, the headers
  with the content type written in, and the body (\<open>None\<close> is \<open>undefined\<close>).
\<close>

definition selectBody ::
  "request_draft \<Rightarrow> js_object \<Rightarrow> js_object \<Rightarrow> js_object \<times> string option" where
  "selectBody request vars mergedHeaders =
     (if rq_method request \<notin> set [''GET'', ''HEAD''] then
        (if rq_bodyType request = Json \<and> length (trim (rq_body request)) > 0 then
           (setProperty mergedHeaders ''Content-Type'' ''application/json'',
            Some (rq_body request))
         else if rq_bodyType request = FormData
                 \<and> (case rq_formDataFields request of None \<Rightarrow> False | Some fs \<Rightarrow> length fs > 0)
         then
           (setProperty mergedHeaders ''Content-Type'' ''application/x-www-form-urlencoded'',
            Some (join ''&''
                    (map (\<lambda>item.
                            encodeURIComponent (applyVariables (trim (kv_key item)) vars)
                            @ ''='' @ encodeURIComponent (applyVariables (kv_value item) vars))
                       (filter (\<lambda>item. kv_enabled item \<and> trim (kv_key item) \<noteq> [])
                          (case rq_formDataFields request of None \<Rightarrow> [] | Some fs \<Rightarrow> fs)))))
         else if rq_bodyType request = Text \<and> trim (rq_body request) \<noteq> [] then
           (mergedHeaders, Some (rq_body request))
         else (mergedHeaders, None))
      else (mergedHeaders, None))"

text \<open>The API-key block of \<open>handleSend\<close>: the URL that is sent.\<close>

definition withApiKey :: "auth_config \<Rightarrow> string \<Rightarrow> string" where
  "withApiKey auth url =
     (case auth of
        ApiKey k v Query \<Rightarrow>
          (let joiner = (if CHR ''?'' \<in> set url then ''&'' else ''?'')
           in url @ joiner @ encodeURIComponent k @ ''='' @ encodeURIComponent v)
      | _ \<Rightarrow> url)"

text \<open>The argument of \<open>window.api.request\<close>.\<close>

definition requestPayload :: "request_draft \<Rightarrow> js_object \<Rightarrow> request_payload" where
  "requestPayload request vars =
     (let resolvedUrl = buildUrl (rq_url request) (rq_params request) vars;
          mergedHeaders = buildHeaders (rq_headers request) (rq_auth request) vars;
          (headers, body) = selectBody request vars mergedHeaders
      in \<lparr>p_url = withApiKey (rq_auth request) resolvedUrl,
          p_method = rq_method request,
          p_headers = headers,
          p_body = body\<rparr>)"

text \<open>\<open>error instanceof Error ? error.message : fallback\<close>\<close>

definition errorMessage :: "thrown \<Rightarrow> string \<Rightarrow> string" where
  "errorMessage e fallback = (case e of ErrorObject message \<Rightarrow> message | OtherValue \<Rightarrow> fallback)"

text \<open>The item that \<open>handleSend\<close> puts in front of the history.\<close>

definition historyItem ::
  "renderer_host \<Rightarrow> request_draft \<Rightarrow> string \<Rightarrow> response_state \<Rightarrow> history_item" where
  "historyItem host request resolvedUrl resp =
     \<lparr>hi_id = random_uuid host,
      hi_name = rq_name request,
      hi_method = rq_method request,
      hi_url = resolvedUrl,
      hi_status = rs_status resp,
      hi_duration = rs_duration resp,
      hi_size = rs_size resp,
      hi_at = date_now host\<rparr>"

text \<open>
  \<open>handleSend\<close>, as the state after it. The two guards return early and touch only the
  response. Inside \<open>try\<close>, a resolved call sets the response and the history; a rejected
  call runs \<open>catch\<close>, which sets the response alone; \<open>finally\<close> clears \<open>sending\<close>.
\<close>

definition handleSend ::
  "renderer_host \<Rightarrow> request_draft \<Rightarrow> env_variable list \<Rightarrow> app_state \<Rightarrow> app_state" where
  "handleSend host request variables st =
     (let vars = variableMap variables;
          resolvedUrl = buildUrl (rq_url request) (rq_params request) vars
      in if \<not> api_available host then
           st\<lparr>response :=
                Some \<lparr>rs_status = 0, rs_statusText = ''Error'', rs_headers = Map.empty,
                      rs_body = ''API not available. Restart the app.'',
                      rs_duration = 0, rs_size = 0\<rparr>\<rparr>
         else if \<not> isValidHttpUrl (url_protocol host) resolvedUrl then
           st\<lparr>response :=
                Some \<lparr>rs_status = 0, rs_statusText = ''Invalid URL'', rs_headers = Map.empty,
                      rs_body = ''Enter a valid http or https URL.'',
                      rs_duration = 0, rs_size = 0\<rparr>\<rparr>
         else
           (case api_request host (requestPayload request vars) of
              Resolved resp \<Rightarrow>
                st\<lparr>response := Some resp,
                   history := take 20 (historyItem host request resolvedUrl resp # history st),
                   sending := False\<rparr>
            | Rejected error \<Rightarrow>
                st\<lparr>response :=
                     Some \<lparr>rs_status = 0, rs_statusText = ''Request failed'',
                           rs_headers = Map.empty,
                           rs_body = errorMessage error ''Unknown error'',
                           rs_duration = 0, rs_size = 0\<rparr>,
                   sending := False\<rparr>))"

text \<open>A run of sends, one after the other, each with its own surroundings and draft.\<close>

fun sends ::
  "(renderer_host \<times> request_draft \<times> env_variable list) list \<Rightarrow> app_state \<Rightarrow> app_state" where
  "sends [] st = st"
| "sends ((host, request, variables) # rest) st =
     sends rest (handleSend host request variables st)"

section \<open>The main process: the handler of http:request\<close>

text \<open>
  \<open>fetch\<close> resolves with a status line, headers and a body whose reading
  (\<open>response.text()\<close>) may itself throw, or rejects.
\<close>

record fetch_response =
  fr_status :: int
  fr_statusText :: string
  fr_headers :: "(string \<times> string) list"
  fr_text :: "thrown + string"

datatype fetch_outcome = FetchResolved fetch_response | FetchRejected thrown

text \<open>
  What the handler takes from the platform: the two readings of \<open>Date.now()\<close> (on entry
  and at the return), the URL parser, \<open>String.prototype.toUpperCase\<close> and \<open>fetch\<close>.
\<close>

record main_host =
  started_at :: int
  finished_at :: int
  parse_protocol :: "string \<Rightarrow> string option"
  to_upper_case :: "string \<Rightarrow> string"
  fetch :: "string \<Rightarrow> string \<Rightarrow> js_object \<Rightarrow> string option \<Rightarrow> fetch_outcome"

definition ALLOWED_METHODS :: "string list" where
  "ALLOWED_METHODS = [''GET'', ''POST'', ''PUT'', ''PATCH'', ''DELETE'', ''HEAD'', ''OPTIONS'']"

definition ALLOWED_PROTOCOLS :: "string list" where
  "ALLOWED_PROTOCOLS = [''http:'', ''https:'']"

text \<open>\<open>new TextEncoder().encode(text).byteLength\<close>\<close>

definition byteLength :: "string \<Rightarrow> int" where
  "byteLength text1 = sum_list (map (\<lambda>c. if (of_char c :: nat) < 128 then 1 else 2) text1)"

definition invalidRequest :: "main_host \<Rightarrow> string \<Rightarrow> response_state" where
  "invalidRequest host message =
     \<lparr>rs_status = 0, rs_statusText = ''Invalid request'', rs_headers = Map.empty,
      rs_body = message, rs_duration = finished_at host - started_at host, rs_size = 0\<rparr>"

definition requestFailed :: "main_host \<Rightarrow> thrown \<Rightarrow> response_state" where
  "requestFailed host err =
     \<lparr>rs_status = 0, rs_statusText = ''Request failed'', rs_headers = Map.empty,
      rs_body = errorMessage err ''Request failed'',
      rs_duration = finished_at host - started_at host, rs_size = 0\<rparr>"

text \<open>
  The handler, in its revision with the validation steps and the \<open>try\<close> around
  \<open>fetch\<close>, for a payload of the shape the renderer sends (an object with a text
  \<open>url\<close>, a text \<open>method\<close>, a header object and an optional text body; the handler's
  checks of these types never fire on it). In the earlier revision nothing catches a
  failing \<open>fetch\<close>: the call across the bridge rejects, which \<open>Rejected\<close> covers.
\<close>

definition httpRequest :: "main_host \<Rightarrow> request_payload \<Rightarrow> response_state" where
  "httpRequest host payload =
     (if p_url payload = [] \<or> trim (p_url payload) = [] then
        invalidRequest host ''URL is required.''
      else
        (case parse_protocol host (trim (p_url payload)) of
           None \<Rightarrow> invalidRequest host ''Invalid URL format.''
         | Some protocol \<Rightarrow>
             if protocol \<notin> set ALLOWED_PROTOCOLS then
               invalidRequest host ''Only http and https URLs are allowed.''
             else
               (let normalizedMethod = to_upper_case host (p_method payload)
                in if normalizedMethod \<notin> set ALLOWED_METHODS then
                     invalidRequest host (''Unsupported method: '' @ p_method payload)
                   else
                     (case fetch host (trim (p_url payload)) normalizedMethod
                             (p_headers payload)
                             (case p_body payload of
                                None \<Rightarrow> None
                              | Some b \<Rightarrow> if length b > 0 then Some b else None) of
                        FetchRejected err \<Rightarrow> requestFailed host err
                      | FetchResolved r \<Rightarrow>
                          (case fr_text r of
                             Inl err \<Rightarrow> requestFailed host err
                           | Inr text1 \<Rightarrow>
                               \<lparr>rs_status = fr_status r,
                                rs_statusText = fr_statusText r,
                                rs_headers =
                                  foldl (\<lambda>responseHeaders (k, v). setProperty responseHeaders k v)
                                    Map.empty (fr_headers r),
                                rs_body = text1,
                                rs_duration = finished_at host - started_at host,
                                rs_size = byteLength text1\<rparr>)))))"

section \<open>Draft factories (utils: emptyKeyValue, defaultRequest) and example surroundings\<close>

text \<open>The factories take the identifiers that \<open>crypto.randomUUID()\<close> returns.\<close>

definition emptyKeyValue :: "string \<Rightarrow> key_value" where
  "emptyKeyValue uuid =
     \<lparr>kv_id = uuid, kv_key = [], kv_value = [], kv_enabled = True, kv_secret = None\<rparr>"

definition defaultRequest :: "string \<Rightarrow> string \<Rightarrow> string \<Rightarrow> string \<Rightarrow> request_draft" where
  "defaultRequest uuid0 uuid1 uuid2 uuid3 =
     \<lparr>rq_id = uuid0,
      rq_name = ''Untitled Request'',
      rq_method = ''GET'',
      rq_url = ''https://api.example.com/v1/users'',
      rq_params = [emptyKeyValue uuid1],
      rq_headers = [emptyKeyValue uuid2],
      rq_bodyType = Json,
      rq_body = ''{'' @ [CHR 0x0A] @ ''  \"username\": \"\",'' @ [CHR 0x0A]
                @ ''  \"email\": \"\"'' @ [CHR 0x0A] @ ''}'',
      rq_formDataFields = Some [emptyKeyValue uuid3],
      rq_auth = NoAuth,
      rq_documentation = Some []\<rparr>"

text \<open>
  Surroundings for the examples below: a parser that knows the two schemes by their
  prefix, a bridge or a \<open>fetch\<close> with a fixed outcome, fixed identifiers and clock.
\<close>

definition exampleProtocol :: "string \<Rightarrow> string option" where
  "exampleProtocol s =
     (if take 8 s = ''https://'' then Some ''https:''
      else if take 7 s = ''http://'' then Some ''http:''
      else None)"

definition exampleHost :: "transport_outcome \<Rightarrow> renderer_host" where
  "exampleHost outcome =
     \<lparr>api_available = True,
      url_protocol = exampleProtocol,
      api_request = (\<lambda>payload. outcome),
      random_uuid = ''h-1'',
      date_now = 1700000000000\<rparr>"

text \<open>Upper-casing of the ASCII letters: what \<open>toUpperCase\<close> does on ASCII text.\<close>

definition exampleUpperCase :: "string \<Rightarrow> string" where
  "exampleUpperCase s =
     map (\<lambda>c. if 97 \<le> (of_char c :: nat) \<and> (of_char c :: nat) \<le> 122
              then char_of ((of_char c :: nat) - 32) else c) s"

definition exampleMainHost :: "fetch_outcome \<Rightarrow> main_host" where
  "exampleMainHost outcome =
     \<lparr>started_at = 1000,
      finished_at = 1042,
      parse_protocol = exampleProtocol,
      to_upper_case = exampleUpperCase,
      fetch = (\<lambda>url method1 headers body. outcome)\<rparr>"

definition exampleDraft :: request_draft where
  "exampleDraft = defaultRequest ''r-0'' ''k-1'' ''k-2'' ''k-3''"

definition exampleResponse :: response_state where
  "exampleResponse =
     \<lparr>rs_status = 200, rs_statusText = ''OK'', rs_headers = Map.empty,
      rs_body = ''[]'', rs_duration = 42, rs_size = 2\<rparr>"

definition initialState :: app_state where
  "initialState = \<lparr>response = None, sending = False, history = []\<rparr>"

section \<open>Properties\<close>

subsection \<open>Helper facts\<close>

lemma matchPlaceholder_needs_brace:
  "c \<noteq> CHR ''{'' \<Longrightarrow> matchPlaceholder (c # cs) = None"
  by (simp add: matchPlaceholder_def split: list.splits)

lemma applyVariables_plain_text:
  "CHR ''{'' \<notin> set t \<Longrightarrow> applyVariables t vars = t"
  by (induction t) (auto simp: matchPlaceholder_needs_brace)

lemma applyVariables_at_match:
  "matchPlaceholder s = Some (k, rest) \<Longrightarrow>
   applyVariables s vars = replacer vars k @ applyVariables rest vars"
  by (cases s) (simp_all add: matchPlaceholder_def)

lemma replacer_outside_prototype:
  "prototypeText k = None \<Longrightarrow>
   replacer vars k = (case vars k of Some v \<Rightarrow> v | None \<Rightarrow> [])"
  by (simp add: replacer_def split: option.splits)

lemma indexOf_first:
  "c \<notin> set pre \<Longrightarrow> indexOf (pre @ c # rest) c = int (length pre)"
  by (induction pre) (auto simp: Let_def)

lemma variableMap_ignores_sensitive:
  "variableMap (map (\<lambda>v. v\<lparr>ev_sensitive := b\<rparr>) vs) = variableMap vs"
  by (simp add: variableMap_def filter_map foldl_map comp_def)

lemma handleSend_resolved:
  assumes "api_available host"
    and "isValidHttpUrl (url_protocol host)
           (buildUrl (rq_url request) (rq_params request) (variableMap variables))"
    and "api_request host (requestPayload request (variableMap variables)) = Resolved resp"
  shows "handleSend host request variables st =
           st\<lparr>response := Some resp,
              history :=
                take 20
                  (historyItem host request
                     (buildUrl (rq_url request) (rq_params request) (variableMap variables)) resp
                   # history st),
              sending := False\<rparr>"
  using assms by (simp add: handleSend_def Let_def)

lemma handleSend_rejected:
  assumes "api_available host"
    and "isValidHttpUrl (url_protocol host)
           (buildUrl (rq_url request) (rq_params request) (variableMap variables))"
    and "api_request host (requestPayload request (variableMap variables)) = Rejected err"
  shows "handleSend host request variables st =
           st\<lparr>response :=
                Some \<lparr>rs_status = 0, rs_statusText = ''Request failed'',
                      rs_headers = Map.empty,
                      rs_body = errorMessage err ''Unknown error'',
                      rs_duration = 0, rs_size = 0\<rparr>,
              sending := False\<rparr>"
  using assms by (simp add: handleSend_def Let_def)

lemma handleSend_guarded:
  assumes "\<not> api_available host
     \<or> \<not> isValidHttpUrl (url_protocol host)
           (buildUrl (rq_url request) (rq_params request) (variableMap variables))"
  shows "history (handleSend host request variables st) = history st"
  using assms by (auto simp: handleSend_def Let_def)

lemma handleSend_history_length:
  "length (history st) \<le> 20 \<Longrightarrow>
   length (history (handleSend host request variables st)) \<le> 20"
  by (simp add: handleSend_def Let_def split: transport_outcome.splits)

lemma sends_history_length:
  "length (history st) \<le> 20 \<Longrightarrow> length (history (sends runs st)) \<le> 20"
proof (induction runs arbitrary: st)
  case Nil
  then show ?case by simp
next
  case (Cons r runs)
  obtain host request variables where r: "r = (host, request, variables)"
    by (cases r) auto
  from Cons.prems have "length (history (handleSend host request variables st)) \<le> 20"
    by (rule handleSend_history_length)
  then show ?case unfolding r by (simp add: Cons.IH)
qed

lemma sends_snoc:
  "sends (runs @ [(host, request, variables)]) st
     = handleSend host request variables (sends runs st)"
  by (induction runs arbitrary: st) auto

text \<open>The example draft resolves to its own URL, which the example parser accepts.\<close>

lemma exampleDraft_url:
  "buildUrl (rq_url exampleDraft) (rq_params exampleDraft) (variableMap [])
     = ''https://api.example.com/v1/users''"
  by (simp add: exampleDraft_def defaultRequest_def emptyKeyValue_def buildUrl_def
      selected_def trim_def variableMap_def matchPlaceholder_def)

lemma exampleDraft_valid:
  "isValidHttpUrl exampleProtocol ''https://api.example.com/v1/users''"
  by (simp add: isValidHttpUrl_def exampleProtocol_def trim_def isSpace_def)

subsection \<open>Variable substitution\<close>

text \<open>
  C1 (code evaluated where the contract fails): the text \<open>{{constructor}}\<close> resolved
  against the empty variable map is not the empty text. The name is absent from the
  map, yet the lookup reaches the member that every plain object inherits, and its
  source text is substituted.
\<close>

theorem applyVariables_inherited_name:
  "applyVariables ''{{constructor}}'' Map.empty = ''function Object() { [native code] }''"
  by (simp add: matchPlaceholder_def isNameChar_def isWordChar_def isSpace_def
      replacer_def prototypeText_def)

subsection \<open>Transport failures\<close>

text \<open>
  C2 (amended): a transport failure never leaves either layer as an exception. When the
  bridge call rejects, \<open>handleSend\<close> shows the record with status 0, status text
  \<open>Request failed\<close>, no headers and, as body, the message of the thrown error, or
  \<open>Unknown error\<close> when the thrown value is not an error. When \<open>fetch\<close> or the reading
  of the body throws in the main process, the handler returns the record of the same
  shape, with the fallback text \<open>Request failed\<close>. The body is not empty whenever the
  thrown error's message is not empty.
\<close>

theorem transport_failure_record:
  "(api_available rh
      \<and> isValidHttpUrl (url_protocol rh)
           (buildUrl (rq_url request) (rq_params request) (variableMap variables))
      \<and> api_request rh (requestPayload request (variableMap variables)) = Rejected err
    \<longrightarrow> response (handleSend rh request variables st)
          = Some \<lparr>rs_status = 0, rs_statusText = ''Request failed'', rs_headers = Map.empty,
                  rs_body = errorMessage err ''Unknown error'',
                  rs_duration = 0, rs_size = 0\<rparr>)
   \<and> (trim (p_url payload) \<noteq> []
      \<and> parse_protocol mh (trim (p_url payload)) = Some protocol
      \<and> protocol \<in> set ALLOWED_PROTOCOLS
      \<and> to_upper_case mh (p_method payload) \<in> set ALLOWED_METHODS
      \<and> (let outcome =
                fetch mh (trim (p_url payload)) (to_upper_case mh (p_method payload))
                  (p_headers payload)
                  (case p_body payload of
                     None \<Rightarrow> None
                   | Some b \<Rightarrow> if length b > 0 then Some b else None)
          in outcome = FetchRejected err
             \<or> (\<exists>r. outcome = FetchResolved r \<and> fr_text r = Inl err))
    \<longrightarrow> httpRequest mh payload
          = \<lparr>rs_status = 0, rs_statusText = ''Request failed'', rs_headers = Map.empty,
             rs_body = errorMessage err ''Request failed'',
             rs_duration = finished_at mh - started_at mh, rs_size = 0\<rparr>)
   \<and> (message \<noteq> [] \<longrightarrow> errorMessage (ErrorObject message) fallback = message
                          \<and> errorMessage (ErrorObject message) fallback \<noteq> [])
   \<and> errorMessage OtherValue ''Unknown error'' \<noteq> []
   \<and> errorMessage OtherValue ''Request failed'' \<noteq> []"
proof -
  have renderer:
    "response (handleSend rh request variables st)
       = Some \<lparr>rs_status = 0, rs_statusText = ''Request failed'', rs_headers = Map.empty,
               rs_body = errorMessage err ''Unknown error'',
               rs_duration = 0, rs_size = 0\<rparr>"
    if "api_available rh"
      and "isValidHttpUrl (url_protocol rh)
             (buildUrl (rq_url request) (rq_params request) (variableMap variables))"
      and "api_request rh (requestPayload request (variableMap variables)) = Rejected err"
    using that by (simp add: handleSend_rejected)
  have main:
    "httpRequest mh payload
       = \<lparr>rs_status = 0, rs_statusText = ''Request failed'', rs_headers = Map.empty,
          rs_body = errorMessage err ''Request failed'',
          rs_duration = finished_at mh - started_at mh, rs_size = 0\<rparr>"
    if "trim (p_url payload) \<noteq> []"
      and "parse_protocol mh (trim (p_url payload)) = Some protocol"
      and "protocol \<in> set ALLOWED_PROTOCOLS"
      and "to_upper_case mh (p_method payload) \<in> set ALLOWED_METHODS"
      and "fetch mh (trim (p_url payload)) (to_upper_case mh (p_method payload))
             (p_headers payload)
             (case p_body payload of
                None \<Rightarrow> None
              | Some b \<Rightarrow> if length b > 0 then Some b else None) = FetchRejected err
           \<or> (\<exists>r. fetch mh (trim (p_url payload)) (to_upper_case mh (p_method payload))
                   (p_headers payload)
                   (case p_body payload of
                      None \<Rightarrow> None
                    | Some b \<Rightarrow> if length b > 0 then Some b else None) = FetchResolved r
                 \<and> fr_text r = Inl err)"
  proof -
    have nonempty: "p_url payload \<noteq> []"
      using that(1) by (auto simp: trim_def)
    from that(5) show ?thesis
      using that(1-4) nonempty
      by (auto simp: httpRequest_def requestFailed_def Let_def)
  qed
  have msg: "errorMessage (ErrorObject message) fallback = message"
    by (simp add: errorMessage_def)
  show ?thesis
    using renderer main by (simp add: Let_def msg errorMessage_def)
qed

theorem transport_failure_record_witness:
  "api_available (exampleHost (Rejected (ErrorObject ''fetch failed'')))
   \<and> isValidHttpUrl (url_protocol (exampleHost (Rejected (ErrorObject ''fetch failed''))))
        (buildUrl (rq_url exampleDraft) (rq_params exampleDraft) (variableMap []))
   \<and> api_request (exampleHost (Rejected (ErrorObject ''fetch failed'')))
        (requestPayload exampleDraft (variableMap [])) = Rejected (ErrorObject ''fetch failed'')
   \<and> response (handleSend (exampleHost (Rejected (ErrorObject ''fetch failed'')))
        exampleDraft [] initialState)
       = Some \<lparr>rs_status = 0, rs_statusText = ''Request failed'', rs_headers = Map.empty,
               rs_body = ''fetch failed'', rs_duration = 0, rs_size = 0\<rparr>
   \<and> httpRequest (exampleMainHost (FetchRejected (ErrorObject ''fetch failed'')))
        \<lparr>p_url = ''https://api.example.com/v1/users'', p_method = ''GET'',
         p_headers = Map.empty, p_body = None\<rparr>
       = \<lparr>rs_status = 0, rs_statusText = ''Request failed'', rs_headers = Map.empty,
          rs_body = ''fetch failed'', rs_duration = 42, rs_size = 0\<rparr>"
proof -
  have a: "api_available (exampleHost (Rejected (ErrorObject ''fetch failed'')))"
    by (simp add: exampleHost_def)
  have b: "isValidHttpUrl (url_protocol (exampleHost (Rejected (ErrorObject ''fetch failed''))))
        (buildUrl (rq_url exampleDraft) (rq_params exampleDraft) (variableMap []))"
    by (simp add: exampleHost_def exampleDraft_url exampleDraft_valid)
  have c: "api_request (exampleHost (Rejected (ErrorObject ''fetch failed'')))
        (requestPayload exampleDraft (variableMap [])) = Rejected (ErrorObject ''fetch failed'')"
    by (simp add: exampleHost_def)
  have t: "trim ''https://api.example.com/v1/users'' = ''https://api.example.com/v1/users''"
    by (simp add: trim_def isSpace_def)
  show ?thesis
    using a b c t
      transport_failure_record[of "exampleHost (Rejected (ErrorObject ''fetch failed''))"
        exampleDraft "[]" "ErrorObject ''fetch failed''" initialState
        "\<lparr>p_url = ''https://api.example.com/v1/users'', p_method = ''GET'',
          p_headers = Map.empty, p_body = None\<rparr>"
        "exampleMainHost (FetchRejected (ErrorObject ''fetch failed''))" "''https:''"
        "''fetch failed''" "[]"]
    by (simp add: exampleMainHost_def exampleProtocol_def exampleUpperCase_def ALLOWED_PROTOCOLS_def
        ALLOWED_METHODS_def errorMessage_def)
qed

text \<open>
  C2 (the claim as stated fails): an error thrown with an empty message gives a record
  whose body is empty, in the main process and in the renderer alike.
\<close>

theorem transport_failure_empty_body:
  "rs_body (httpRequest (exampleMainHost (FetchRejected (ErrorObject [])))
      \<lparr>p_url = ''https://api.example.com/v1/users'', p_method = ''GET'',
       p_headers = Map.empty, p_body = None\<rparr>) = []
   \<and> response (handleSend (exampleHost (Rejected (ErrorObject []))) exampleDraft []
        initialState)
       = Some \<lparr>rs_status = 0, rs_statusText = ''Request failed'', rs_headers = Map.empty,
               rs_body = [], rs_duration = 0, rs_size = 0\<rparr>"
proof -
  have t: "trim ''https://api.example.com/v1/users'' = ''https://api.example.com/v1/users''"
    by (simp add: trim_def isSpace_def)
  have main: "rs_body (httpRequest (exampleMainHost (FetchRejected (ErrorObject [])))
      \<lparr>p_url = ''https://api.example.com/v1/users'', p_method = ''GET'',
       p_headers = Map.empty, p_body = None\<rparr>) = []"
    by (simp add: httpRequest_def t exampleMainHost_def exampleProtocol_def
        exampleUpperCase_def ALLOWED_PROTOCOLS_def ALLOWED_METHODS_def requestFailed_def errorMessage_def)
  have renderer: "response (handleSend (exampleHost (Rejected (ErrorObject []))) exampleDraft []
        initialState)
       = Some \<lparr>rs_status = 0, rs_statusText = ''Request failed'', rs_headers = Map.empty,
               rs_body = [], rs_duration = 0, rs_size = 0\<rparr>"
    by (simp add: handleSend_def exampleDraft_url exampleHost_def exampleDraft_valid
        errorMessage_def initialState_def)
  from main renderer show ?thesis by simp
qed

subsection \<open>URL building\<close>

text \<open>
  C3: when the resolved base URL has a fragment (it reads \<open>pre # frag\<close>, the first
  \<open>#\<close> after \<open>pre\<close>) and at least one parameter is selected, \<open>buildUrl\<close> puts the
  query string before the fragment, after \<open>&\<close> when \<open>pre\<close> holds a \<open>?\<close> and after
  \<open>?\<close> otherwise.
\<close>

theorem buildUrl_query_before_fragment:
  assumes "applyVariables url vars = pre @ CHR ''#'' # frag"
    and "CHR ''#'' \<notin> set pre"
    and "filter selected params \<noteq> []"
  shows "buildUrl url params vars =
           pre @ (if CHR ''?'' \<in> set pre then ''&'' else ''?'')
           @ join ''&''
               (map (\<lambda>item. encodeURIComponent (applyVariables (trim (kv_key item)) vars)
                             @ ''='' @ encodeURIComponent (applyVariables (kv_value item) vars))
                  (filter selected params))
           @ CHR ''#'' # frag"
proof -
  have i: "indexOf (pre @ CHR ''#'' # frag) (CHR ''#'') = int (length pre)"
    using assms(2) by (rule indexOf_first)
  show ?thesis
    using assms(3) by (simp add: buildUrl_def Let_def assms(1) i comp_def case_prod_beta)
qed

text \<open>The example of the specification, obtained from the theorem.\<close>

theorem buildUrl_query_before_fragment_witness:
  "applyVariables ''https://h/p?a=1#frag'' Map.empty = ''https://h/p?a=1'' @ CHR ''#'' # ''frag''
   \<and> CHR ''#'' \<notin> set ''https://h/p?a=1''
   \<and> filter selected
        [\<lparr>kv_id = ''1'', kv_key = ''b'', kv_value = ''2'', kv_enabled = True,
          kv_secret = None\<rparr>] \<noteq> []
   \<and> buildUrl ''https://h/p?a=1#frag''
        [\<lparr>kv_id = ''1'', kv_key = ''b'', kv_value = ''2'', kv_enabled = True,
          kv_secret = None\<rparr>] Map.empty
       = ''https://h/p?a=1&b=2#frag''"
proof -
  have a: "applyVariables ''https://h/p?a=1#frag'' Map.empty
             = ''https://h/p?a=1'' @ CHR ''#'' # ''frag''"
    by (simp add: matchPlaceholder_def)
  have b: "CHR ''#'' \<notin> set ''https://h/p?a=1''" by simp
  have c: "filter selected
             [\<lparr>kv_id = ''1'', kv_key = ''b'', kv_value = ''2'', kv_enabled = True,
               kv_secret = None\<rparr>] \<noteq> []"
    by (simp add: selected_def trim_def isSpace_def)
  show ?thesis
    using buildUrl_query_before_fragment[OF a b c] a b c
    by (simp add: selected_def trim_def isSpace_def matchPlaceholder_def
        encodeURIComponent_def encodeChar_def isUnreserved_def isWordChar_def)
qed

subsection \<open>Header building\<close>

text \<open>
  C4: with bearer authentication, the object that \<open>buildHeaders\<close> returns has the
  property \<open>Authorization\<close> with the value \<open>Bearer\<close>, a space and the token, whatever
  the header list and the variables are.
\<close>

theorem buildHeaders_bearer_overrides:
  "buildHeaders headers (Bearer token) vars ''Authorization'' = Some (''Bearer '' @ token)"
  by (simp add: buildHeaders_def setProperty_def)

subsection \<open>Body selection\<close>

text \<open>
  C5: for the methods \<open>GET\<close> and \<open>HEAD\<close> no body is selected and the headers stay as
  they are, whatever the body type, the body text and the form fields; the payload
  handed to the bridge has no body.
\<close>

theorem no_body_for_get_and_head:
  assumes "rq_method request = ''GET'' \<or> rq_method request = ''HEAD''"
  shows "selectBody request vars mergedHeaders = (mergedHeaders, None)
         \<and> p_body (requestPayload request vars) = None"
  using assms by (auto simp: selectBody_def requestPayload_def Let_def)

theorem no_body_for_get_and_head_witness:
  "(rq_method exampleDraft = ''GET'' \<or> rq_method exampleDraft = ''HEAD'')
   \<and> rq_bodyType exampleDraft = Json
   \<and> trim (rq_body exampleDraft) \<noteq> []
   \<and> selectBody exampleDraft Map.empty Map.empty = (Map.empty, None)
   \<and> p_body (requestPayload exampleDraft Map.empty) = None"
proof -
  have m: "rq_method exampleDraft = ''GET'' \<or> rq_method exampleDraft = ''HEAD''"
    by (simp add: exampleDraft_def defaultRequest_def)
  have b: "trim (rq_body exampleDraft) \<noteq> []"
    by (simp add: exampleDraft_def defaultRequest_def trim_def isSpace_def)
  show ?thesis
    using no_body_for_get_and_head[OF m, of Map.empty Map.empty] m b
    by (simp add: exampleDraft_def defaultRequest_def)
qed

subsection \<open>History\<close>

text \<open>
  C6: from a history of at most 20 items, any run of sends leaves at most 20 items; and
  when a further send is recorded (the guards pass and the bridge call resolves), its
  item is at index 0 and the length is still at most 20.
\<close>

theorem history_capacity:
  assumes "length (history st) \<le> 20"
  shows "length (history (sends runs st)) \<le> 20
    \<and> (api_available host
         \<and> isValidHttpUrl (url_protocol host)
              (buildUrl (rq_url request) (rq_params request) (variableMap variables))
         \<and> api_request host (requestPayload request (variableMap variables)) = Resolved resp
       \<longrightarrow> history (sends (runs @ [(host, request, variables)]) st) ! 0
             = historyItem host request
                 (buildUrl (rq_url request) (rq_params request) (variableMap variables)) resp
           \<and> length (history (sends (runs @ [(host, request, variables)]) st)) \<le> 20)"
proof -
  have len: "length (history (sends runs st)) \<le> 20"
    using assms by (rule sends_history_length)
  show ?thesis
    using len by (auto simp: sends_snoc handleSend_resolved)
qed

theorem history_capacity_witness:
  "length (history initialState) \<le> 20
   \<and> length (history (sends (replicate 25 (exampleHost (Resolved exampleResponse), exampleDraft, []))
        initialState)) \<le> 20
   \<and> history (sends (replicate 25 (exampleHost (Resolved exampleResponse), exampleDraft, [])
        @ [(exampleHost (Resolved exampleResponse), exampleDraft\<lparr>rq_name := ''Newest''\<rparr>, [])])
        initialState) ! 0
       = \<lparr>hi_id = ''h-1'', hi_name = ''Newest'', hi_method = ''GET'',
          hi_url = ''https://api.example.com/v1/users'', hi_status = 200, hi_duration = 42,
          hi_size = 2, hi_at = 1700000000000\<rparr>"
proof -
  have l: "length (history initialState) \<le> 20"
    by (simp add: initialState_def)
  have u: "buildUrl (rq_url (exampleDraft\<lparr>rq_name := ''Newest''\<rparr>))
             (rq_params (exampleDraft\<lparr>rq_name := ''Newest''\<rparr>)) (variableMap [])
           = ''https://api.example.com/v1/users''"
    using exampleDraft_url by simp
  show ?thesis
    using l u
      history_capacity[OF l,
        of "replicate 25 (exampleHost (Resolved exampleResponse), exampleDraft, [])"
        "exampleHost (Resolved exampleResponse)" "exampleDraft\<lparr>rq_name := ''Newest''\<rparr>" "[]"
        exampleResponse]
    by (simp add: exampleHost_def exampleDraft_valid historyItem_def exampleResponse_def
        exampleDraft_def defaultRequest_def)
qed

text \<open>
  C7 (amended): \<open>handleSend\<close> builds a history item and puts it in front of the list,
  cut to 20, exactly when the guards pass and the bridge call resolves with a response
  (of any status, the status 0 of a failure reported by the main process included). The
  item has the identifier and the time stamp of the moment, the draft's name and
  method, the resolved URL, and the status, duration and size of the response. When a
  guard stops the send, or the bridge call rejects, the history stays as it is.
\<close>

theorem history_item_when_resolved:
  "(api_available host
      \<and> isValidHttpUrl (url_protocol host)
           (buildUrl (rq_url request) (rq_params request) (variableMap variables))
      \<and> api_request host (requestPayload request (variableMap variables)) = Resolved resp
    \<longrightarrow> history (handleSend host request variables st)
          = take 20
              (\<lparr>hi_id = random_uuid host, hi_name = rq_name request,
                hi_method = rq_method request,
                hi_url = buildUrl (rq_url request) (rq_params request) (variableMap variables),
                hi_status = rs_status resp, hi_duration = rs_duration resp,
                hi_size = rs_size resp, hi_at = date_now host\<rparr>
               # history st))
   \<and> (\<not> api_available host
      \<or> \<not> isValidHttpUrl (url_protocol host)
             (buildUrl (rq_url request) (rq_params request) (variableMap variables))
      \<or> api_request host (requestPayload request (variableMap variables)) = Rejected err
    \<longrightarrow> history (handleSend host request variables st) = history st)"
proof -
  have rec: "history (handleSend host request variables st)
          = take 20
              (\<lparr>hi_id = random_uuid host, hi_name = rq_name request,
                hi_method = rq_method request,
                hi_url = buildUrl (rq_url request) (rq_params request) (variableMap variables),
                hi_status = rs_status resp, hi_duration = rs_duration resp,
                hi_size = rs_size resp, hi_at = date_now host\<rparr>
               # history st)"
    if "api_available host"
      and "isValidHttpUrl (url_protocol host)
             (buildUrl (rq_url request) (rq_params request) (variableMap variables))"
      and "api_request host (requestPayload request (variableMap variables)) = Resolved resp"
    using that by (simp add: handleSend_resolved historyItem_def)
  have same: "history (handleSend host request variables st) = history st"
    if "\<not> api_available host
      \<or> \<not> isValidHttpUrl (url_protocol host)
             (buildUrl (rq_url request) (rq_params request) (variableMap variables))
      \<or> api_request host (requestPayload request (variableMap variables)) = Rejected err"
  proof (cases "api_available host
      \<and> isValidHttpUrl (url_protocol host)
             (buildUrl (rq_url request) (rq_params request) (variableMap variables))")
    case True
    with that have "api_request host (requestPayload request (variableMap variables))
        = Rejected err" by simp
    with True show ?thesis by (simp add: handleSend_rejected)
  next
    case False
    then show ?thesis by (simp add: handleSend_guarded)
  qed
  from rec same show ?thesis by blast
qed

theorem history_item_when_resolved_witness:
  "api_available (exampleHost (Resolved exampleResponse))
   \<and> isValidHttpUrl (url_protocol (exampleHost (Resolved exampleResponse)))
        (buildUrl (rq_url exampleDraft) (rq_params exampleDraft) (variableMap []))
   \<and> api_request (exampleHost (Resolved exampleResponse))
        (requestPayload exampleDraft (variableMap [])) = Resolved exampleResponse
   \<and> history (handleSend (exampleHost (Resolved exampleResponse)) exampleDraft []
        initialState)
       = [\<lparr>hi_id = ''h-1'', hi_name = ''Untitled Request'', hi_method = ''GET'',
           hi_url = ''https://api.example.com/v1/users'', hi_status = 200,
           hi_duration = 42, hi_size = 2, hi_at = 1700000000000\<rparr>]
   \<and> api_request (exampleHost (Rejected OtherValue))
        (requestPayload exampleDraft (variableMap [])) = Rejected OtherValue
   \<and> history (handleSend (exampleHost (Rejected OtherValue)) exampleDraft [] initialState)
       = history initialState"
proof -
  have a: "api_available (exampleHost (Resolved exampleResponse))"
    by (simp add: exampleHost_def)
  have b: "isValidHttpUrl (url_protocol (exampleHost (Resolved exampleResponse)))
        (buildUrl (rq_url exampleDraft) (rq_params exampleDraft) (variableMap []))"
    by (simp add: exampleHost_def exampleDraft_url exampleDraft_valid)
  have c: "api_request (exampleHost (Resolved exampleResponse))
        (requestPayload exampleDraft (variableMap [])) = Resolved exampleResponse"
    by (simp add: exampleHost_def)
  have d: "api_request (exampleHost (Rejected OtherValue))
        (requestPayload exampleDraft (variableMap [])) = Rejected OtherValue"
    by (simp add: exampleHost_def)
  have n: "rq_name exampleDraft = ''Untitled Request''" "rq_method exampleDraft = ''GET''"
    by (simp_all add: exampleDraft_def defaultRequest_def)
  show ?thesis
    using a b c d
      history_item_when_resolved[of "exampleHost (Resolved exampleResponse)" exampleDraft "[]"
        exampleResponse initialState OtherValue]
      history_item_when_resolved[of "exampleHost (Rejected OtherValue)" exampleDraft "[]"
        exampleResponse initialState OtherValue]
    by (simp add: exampleDraft_url n exampleHost_def exampleResponse_def initialState_def)
qed

text \<open>
  C7 (the claim as stated fails): a send whose bridge call rejects ends with the record
  \<open>Request failed\<close> as response and adds no history item; a send stopped by the URL guard
  ends with the record \<open>Invalid URL\<close> and adds none either.
\<close>

theorem no_history_item_after_failure:
  "response (handleSend (exampleHost (Rejected (ErrorObject ''fetch failed''))) exampleDraft []
        initialState)
     = Some \<lparr>rs_status = 0, rs_statusText = ''Request failed'', rs_headers = Map.empty,
             rs_body = ''fetch failed'', rs_duration = 0, rs_size = 0\<rparr>
   \<and> history (handleSend (exampleHost (Rejected (ErrorObject ''fetch failed'')))
        exampleDraft [] initialState) = []
   \<and> response (handleSend (exampleHost (Resolved exampleResponse))
        (exampleDraft\<lparr>rq_url := ''ftp://api.example.com''\<rparr>) [] initialState)
     = Some \<lparr>rs_status = 0, rs_statusText = ''Invalid URL'', rs_headers = Map.empty,
             rs_body = ''Enter a valid http or https URL.'', rs_duration = 0, rs_size = 0\<rparr>
   \<and> history (handleSend (exampleHost (Resolved exampleResponse))
        (exampleDraft\<lparr>rq_url := ''ftp://api.example.com''\<rparr>) [] initialState) = []"
proof -
  have u: "buildUrl ''ftp://api.example.com'' (rq_params exampleDraft) (variableMap [])
             = ''ftp://api.example.com''"
    by (simp add: exampleDraft_def defaultRequest_def emptyKeyValue_def buildUrl_def
        selected_def trim_def variableMap_def matchPlaceholder_def)
  have v: "\<not> isValidHttpUrl exampleProtocol ''ftp://api.example.com''"
    by (simp add: isValidHttpUrl_def exampleProtocol_def trim_def isSpace_def)
  show ?thesis
    by (simp add: handleSend_def exampleDraft_url exampleDraft_valid u v exampleHost_def
        initialState_def errorMessage_def)
qed

text \<open>
  C8: with an API key placed in the query, a recorded send stores in its history item
  the URL that \<open>buildUrl\<close> produced, while the URL handed to the bridge is that URL
  followed by a separator and the encoded pair: the appended pair is not part of the
  history URL.
\<close>

theorem history_url_without_api_key:
  assumes "api_available host"
    and "isValidHttpUrl (url_protocol host)
           (buildUrl (rq_url request) (rq_params request) (variableMap variables))"
    and "rq_auth request = ApiKey k v Query"
    and "api_request host (requestPayload request (variableMap variables)) = Resolved resp"
  shows "hi_url (history (handleSend host request variables st) ! 0)
           = buildUrl (rq_url request) (rq_params request) (variableMap variables)
    \<and> p_url (requestPayload request (variableMap variables))
           = hi_url (history (handleSend host request variables st) ! 0)
             @ (if CHR ''?'' \<in> set (buildUrl (rq_url request) (rq_params request)
                                      (variableMap variables))
                then ''&'' else ''?'')
             @ encodeURIComponent k @ ''='' @ encodeURIComponent v"
proof -
  have h: "hi_url (history (handleSend host request variables st) ! 0)
           = buildUrl (rq_url request) (rq_params request) (variableMap variables)"
    using assms(1,2,4) by (simp add: handleSend_resolved historyItem_def)
  have p: "p_url (requestPayload request (variableMap variables))
           = buildUrl (rq_url request) (rq_params request) (variableMap variables)
             @ (if CHR ''?'' \<in> set (buildUrl (rq_url request) (rq_params request)
                                      (variableMap variables))
                then ''&'' else ''?'')
             @ encodeURIComponent k @ ''='' @ encodeURIComponent v"
    using assms(3) by (simp add: requestPayload_def withApiKey_def Let_def case_prod_beta)
  from h p show ?thesis by simp
qed

theorem history_url_without_api_key_witness:
  "api_available (exampleHost (Resolved exampleResponse))
   \<and> isValidHttpUrl (url_protocol (exampleHost (Resolved exampleResponse)))
        (buildUrl (rq_url (exampleDraft\<lparr>rq_auth := ApiKey ''api_key'' ''s3 cr3t'' Query\<rparr>))
           (rq_params (exampleDraft\<lparr>rq_auth := ApiKey ''api_key'' ''s3 cr3t'' Query\<rparr>))
           (variableMap []))
   \<and> rq_auth (exampleDraft\<lparr>rq_auth := ApiKey ''api_key'' ''s3 cr3t'' Query\<rparr>)
       = ApiKey ''api_key'' ''s3 cr3t'' Query
   \<and> api_request (exampleHost (Resolved exampleResponse))
        (requestPayload (exampleDraft\<lparr>rq_auth := ApiKey ''api_key'' ''s3 cr3t'' Query\<rparr>)
           (variableMap [])) = Resolved exampleResponse
   \<and> hi_url (history (handleSend (exampleHost (Resolved exampleResponse))
        (exampleDraft\<lparr>rq_auth := ApiKey ''api_key'' ''s3 cr3t'' Query\<rparr>) [] initialState) ! 0)
       = ''https://api.example.com/v1/users''
   \<and> p_url (requestPayload (exampleDraft\<lparr>rq_auth := ApiKey ''api_key'' ''s3 cr3t'' Query\<rparr>)
        (variableMap []))
       = ''https://api.example.com/v1/users?api_key=s3%20cr3t''"
proof -
  let ?d = "exampleDraft\<lparr>rq_auth := ApiKey ''api_key'' ''s3 cr3t'' Query\<rparr>"
  have u: "buildUrl (rq_url ?d) (rq_params ?d) (variableMap [])
             = ''https://api.example.com/v1/users''"
    using exampleDraft_url by simp
  have a: "api_available (exampleHost (Resolved exampleResponse))"
    by (simp add: exampleHost_def)
  have b: "isValidHttpUrl (url_protocol (exampleHost (Resolved exampleResponse)))
        (buildUrl (rq_url ?d) (rq_params ?d) (variableMap []))"
    by (simp only: u) (simp add: exampleHost_def exampleDraft_valid)
  have c: "rq_auth ?d = ApiKey ''api_key'' ''s3 cr3t'' Query" by simp
  have d: "api_request (exampleHost (Resolved exampleResponse))
        (requestPayload ?d (variableMap [])) = Resolved exampleResponse"
    by (simp add: exampleHost_def)
  have e: "encodeURIComponent ''api_key'' = ''api_key''"
    "encodeURIComponent ''s3 cr3t'' = ''s3%20cr3t''"
    by (simp_all add: encodeURIComponent_def encodeChar_def isUnreserved_def isWordChar_def
        percentByte_def hexDigit_def)
  from history_url_without_api_key[OF a b c d, of initialState] a b c d
  show ?thesis by (simp add: exampleDraft_url e)
qed

subsection \<open>Environment variables\<close>

text \<open>
  C9: two variable lists that agree once every \<open>sensitive\<close> flag is set to the same
  value give the same variable map, hence the same resolved URL, headers, payload
  (URL, headers and body) and the same state after \<open>handleSend\<close>.
\<close>

theorem sensitive_flag_has_no_effect:
  assumes "map (\<lambda>v. v\<lparr>ev_sensitive := False\<rparr>) vs1 = map (\<lambda>v. v\<lparr>ev_sensitive := False\<rparr>) vs2"
  shows "variableMap vs1 = variableMap vs2
    \<and> buildUrl url params (variableMap vs1) = buildUrl url params (variableMap vs2)
    \<and> buildHeaders headers auth (variableMap vs1) = buildHeaders headers auth (variableMap vs2)
    \<and> requestPayload request (variableMap vs1) = requestPayload request (variableMap vs2)
    \<and> handleSend host request vs1 st = handleSend host request vs2 st"
proof -
  have "variableMap vs1 = variableMap (map (\<lambda>v. v\<lparr>ev_sensitive := False\<rparr>) vs1)"
    by (simp only: variableMap_ignores_sensitive)
  also have "\<dots> = variableMap (map (\<lambda>v. v\<lparr>ev_sensitive := False\<rparr>) vs2)"
    by (simp only: assms)
  also have "\<dots> = variableMap vs2"
    by (simp only: variableMap_ignores_sensitive)
  finally have eq: "variableMap vs1 = variableMap vs2" .
  have "handleSend host request vs1 st = handleSend host request vs2 st"
    unfolding handleSend_def eq ..
  with eq show ?thesis by simp
qed

theorem sensitive_flag_has_no_effect_witness:
  "map (\<lambda>v. v\<lparr>ev_sensitive := False\<rparr>)
     [\<lparr>ev_id = ''v-1'', ev_key = ''token'', ev_initialValue = [], ev_currentValue = ''abc'',
       ev_sensitive = True\<rparr>]
     = map (\<lambda>v. v\<lparr>ev_sensitive := False\<rparr>)
         [\<lparr>ev_id = ''v-1'', ev_key = ''token'', ev_initialValue = [],
           ev_currentValue = ''abc'', ev_sensitive = False\<rparr>]
   \<and> buildUrl ''https://h/{{token}}'' []
        (variableMap
           [\<lparr>ev_id = ''v-1'', ev_key = ''token'', ev_initialValue = [],
             ev_currentValue = ''abc'', ev_sensitive = True\<rparr>])
       = ''https://h/abc''
   \<and> buildUrl ''https://h/{{token}}'' []
        (variableMap
           [\<lparr>ev_id = ''v-1'', ev_key = ''token'', ev_initialValue = [],
             ev_currentValue = ''abc'', ev_sensitive = False\<rparr>])
       = ''https://h/abc''"
proof -
  have h: "map (\<lambda>v. v\<lparr>ev_sensitive := False\<rparr>)
     [\<lparr>ev_id = ''v-1'', ev_key = ''token'', ev_initialValue = [], ev_currentValue = ''abc'',
       ev_sensitive = True\<rparr>]
     = map (\<lambda>v. v\<lparr>ev_sensitive := False\<rparr>)
         [\<lparr>ev_id = ''v-1'', ev_key = ''token'', ev_initialValue = [],
           ev_currentValue = ''abc'', ev_sensitive = False\<rparr>]"
    by simp
  have v: "buildUrl ''https://h/{{token}}'' []
        (variableMap
           [\<lparr>ev_id = ''v-1'', ev_key = ''token'', ev_initialValue = [],
             ev_currentValue = ''abc'', ev_sensitive = False\<rparr>])
       = ''https://h/abc''"
    by (simp add: buildUrl_def variableMap_def setProperty_def trim_def isSpace_def
        matchPlaceholder_def isNameChar_def isWordChar_def replacer_def)
  from sensitive_flag_has_no_effect[OF h, of "''https://h/{{token}}''" "[]"] h v
  show ?thesis by simp
qed

subsection \<open>The API key in the query\<close>

text \<open>
  C10: for an API key placed in the query, the URL that is sent is the resolved URL with
  a separator and the encoded pair appended at its very end, after a fragment too; the
  separator is \<open>&\<close> when a \<open>?\<close> occurs anywhere in the resolved URL, inside the fragment
  included, and \<open>?\<close> otherwise. On \<open>https://h/p#a?b\<close> the pair follows the fragment
  after \<open>&\<close>, where \<open>buildUrl\<close> puts the same pair before the fragment after \<open>?\<close>.
\<close>

theorem api_key_appended_at_end:
  "withApiKey (ApiKey k v Query) url
     = url @ (if CHR ''?'' \<in> set url then ''&'' else ''?'')
       @ encodeURIComponent k @ ''='' @ encodeURIComponent v
   \<and> withApiKey (ApiKey k v Query) (pre @ CHR ''#'' # frag)
     = pre @ CHR ''#'' # frag
       @ (if CHR ''?'' \<in> set pre \<or> CHR ''?'' \<in> set frag then ''&'' else ''?'')
       @ encodeURIComponent k @ ''='' @ encodeURIComponent v
   \<and> p_url (requestPayload (request\<lparr>rq_auth := ApiKey k v Query\<rparr>) vars)
     = withApiKey (ApiKey k v Query) (buildUrl (rq_url request) (rq_params request) vars)
   \<and> withApiKey (ApiKey ''k'' ''v'' Query) ''https://h/p#a?b'' = ''https://h/p#a?b&k=v''
   \<and> buildUrl ''https://h/p#a?b''
        [\<lparr>kv_id = ''1'', kv_key = ''k'', kv_value = ''v'', kv_enabled = True,
          kv_secret = None\<rparr>] Map.empty
     = ''https://h/p?k=v#a?b''"
proof -
  have e: "encodeURIComponent ''k'' = ''k''" "encodeURIComponent ''v'' = ''v''"
    by (simp_all add: encodeURIComponent_def encodeChar_def isUnreserved_def isWordChar_def)
  have general: "withApiKey (ApiKey k v Query) u
     = u @ (if CHR ''?'' \<in> set u then ''&'' else ''?'')
       @ encodeURIComponent k @ ''='' @ encodeURIComponent v" for u
    by (simp add: withApiKey_def)
  have fragment: "withApiKey (ApiKey k v Query) (pre @ CHR ''#'' # frag)
     = pre @ CHR ''#'' # frag
       @ (if CHR ''?'' \<in> set pre \<or> CHR ''?'' \<in> set frag then ''&'' else ''?'')
       @ encodeURIComponent k @ ''='' @ encodeURIComponent v"
    by (simp add: general)
  have payload: "p_url (requestPayload (request\<lparr>rq_auth := ApiKey k v Query\<rparr>) vars)
     = withApiKey (ApiKey k v Query) (buildUrl (rq_url request) (rq_params request) vars)"
    by (simp add: requestPayload_def Let_def case_prod_beta)
  have ex1: "withApiKey (ApiKey ''k'' ''v'' Query) ''https://h/p#a?b'' = ''https://h/p#a?b&k=v''"
    by (simp add: withApiKey_def e)
  have ex2: "buildUrl ''https://h/p#a?b''
        [\<lparr>kv_id = ''1'', kv_key = ''k'', kv_value = ''v'', kv_enabled = True,
          kv_secret = None\<rparr>] Map.empty
     = ''https://h/p?k=v#a?b''"
    by (simp add: buildUrl_def selected_def trim_def isSpace_def matchPlaceholder_def e)
  from general fragment payload ex1 ex2 show ?thesis by simp
qed

end
